theory Spec2Isabelle
  imports Main
begin

section \<open>Data model\<close>

text \<open>
  The reconciler of \<^verbatim>\<open>pkg/controller/multiclusterhub\<close> is glue between a
  remote resource store and a handful of policy functions. Everything it reads from the
  outside (the store client, the discovery client, the file system, the helpers of the
  sibling packages) is a parameter of the model; everything it does itself (the order of
  the calls, the branch on each returned error, the pair it returns) is written out.
  Log statements have no effect on what is returned and are left out.
\<close>

subsection \<open>Errors\<close>

datatype StatusReason =
    StatusReasonNotFound
  | StatusReasonAlreadyExists
  | StatusReasonConflict
  | StatusReasonForbidden
  | StatusReasonTimeout
  | StatusReasonInternalError

datatype Errno = ENOENT | EACCES | ENOTDIR | EIO

text \<open>
  A Go \<^verbatim>\<open>error\<close> value that is not nil: an API status error with its reason, an
  error of package \<^verbatim>\<open>os\<close> (operation, path, cause), or a plain message as made by
  \<^verbatim>\<open>errors.New\<close> and \<^verbatim>\<open>fmt.Errorf\<close>. A nil error is \<open>None\<close> of
  \<open>error option\<close>.
\<close>

datatype error =
    StatusError StatusReason string
  | PathError string string Errno
  | errorString string

text \<open>\<^verbatim>\<open>errors.IsNotFound\<close> of apimachinery, on a non-nil error.\<close>

fun IsNotFound :: "error \<Rightarrow> bool" where
  "IsNotFound (StatusError r msg) = (r = StatusReasonNotFound)"
| "IsNotFound (PathError opn p c) = False"
| "IsNotFound (errorString msg) = False"

text \<open>\<^verbatim>\<open>os.IsNotExist\<close>, which also accepts nil.\<close>

fun IsNotExist :: "error option \<Rightarrow> bool" where
  "IsNotExist None = False"
| "IsNotExist (Some (PathError opn p c)) = (c = ENOENT)"
| "IsNotExist (Some (StatusError r msg)) = False"
| "IsNotExist (Some (errorString msg)) = False"

subsection \<open>Resources\<close>

record GroupVersion =
  Group :: string
  Version :: string

record GroupVersionKind = GroupVersion +
  Kind :: string

text \<open>\<^verbatim>\<open>types.NamespacedName\<close>: the namespace, then the name.\<close>

datatype NamespacedName = NamespacedName (KeyNamespace: string) (KeyName: string)

text \<open>
  \<^verbatim>\<open>metav1.ObjectMeta\<close>, with the fields the reconciler reads or writes. A Go
  string that was never set is the empty string.
\<close>

record ObjectMeta =
  Name :: string
  Namespace :: string
  SelfLink :: string
  ResourceVersion :: string
  UID :: string
  Labels :: "string \<rightharpoonup> string"

text \<open>
  A \<^verbatim>\<open>runtime.Object\<close>. The typed \<^verbatim>\<open>appsv1.Deployment\<close>,
  \<^verbatim>\<open>corev1.Service\<close> and \<^verbatim>\<open>corev1.Secret\<close> and the untyped
  \<^verbatim>\<open>unstructured.Unstructured\<close> all are metadata plus content; here the Go type of a
  typed object is its \<open>gvk\<close>, and the content (the data of a secret, the spec of a
  deployment) is a payload that the reconciler never looks into.
\<close>

record Object = ObjectMeta +
  gvk :: GroupVersionKind
  Data :: "(string \<times> string) list"

record MultiClusterHub = ObjectMeta +
  ImagePullSecret :: string

record CacheSpec =
  ImageOverrides :: "(string \<times> string) list"

definition emptyGVK :: GroupVersionKind where
  "emptyGVK = \<lparr>Group = [], Version = [], Kind = []\<rparr>"

definition emptyObject :: Object where
  "emptyObject = \<lparr>Name = [], Namespace = [], SelfLink = [], ResourceVersion = [], UID = [],
     Labels = Map.empty, gvk = emptyGVK, Data = []\<rparr>"

text \<open>The zero values \<^verbatim>\<open>&appsv1.Deployment{}\<close>, \<^verbatim>\<open>&corev1.Service{}\<close>, \<^verbatim>\<open>&corev1.Secret{}\<close>.\<close>

definition emptyDeployment :: Object where
  "emptyDeployment = emptyObject\<lparr>gvk := \<lparr>Group = ''apps'', Version = ''v1'', Kind = ''Deployment''\<rparr>\<rparr>"

definition emptyService :: Object where
  "emptyService = emptyObject\<lparr>gvk := \<lparr>Group = [], Version = ''v1'', Kind = ''Service''\<rparr>\<rparr>"

definition emptySecret :: Object where
  "emptySecret = emptyObject\<lparr>gvk := \<lparr>Group = [], Version = ''v1'', Kind = ''Secret''\<rparr>\<rparr>"

text \<open>\<^verbatim>\<open>u.SetGroupVersionKind(gvk)\<close> on a fresh \<^verbatim>\<open>&unstructured.Unstructured{}\<close>.\<close>

definition emptyUnstructured :: "GroupVersionKind \<Rightarrow> Object" where
  "emptyUnstructured k = emptyObject\<lparr>gvk := k\<rparr>"

definition ChannelGVK :: GroupVersionKind where
  "ChannelGVK = \<lparr>Group = ''apps.open-cluster-management.io'', Version = ''v1'', Kind = ''Channel''\<rparr>"

definition SubscriptionGVK :: GroupVersionKind where
  "SubscriptionGVK =
     \<lparr>Group = ''apps.open-cluster-management.io'', Version = ''v1'', Kind = ''Subscription''\<rparr>"

subsection \<open>What a reconcile step returns\<close>

text \<open>
  \<^verbatim>\<open>reconcile.Result\<close>; \<open>RequeueAfter\<close> is a \<^verbatim>\<open>time.Duration\<close>, a count of
  nanoseconds. Every operation returns \<^verbatim>\<open>(*reconcile.Result, error)\<close>: a pointer that
  may be nil and an error that may be nil.
\<close>

record Result =
  Requeue :: bool
  RequeueAfter :: int

definition Second :: int where
  "Second = 1000000000"

definition emptyResult :: Result where
  "emptyResult = \<lparr>Requeue = False, RequeueAfter = 0\<rparr>"

type_synonym ret = "Result option \<times> error option"

section \<open>The store client\<close>

text \<open>
  \<^verbatim>\<open>r.client\<close> is the client of controller-runtime, outside this repository. It is a
  parameter: three functions over a store state \<open>'c\<close> of which nothing is assumed.
  \<open>Get\<close> receives the key and the object to fill (its \<open>gvk\<close> says which kind is
  asked for) and answers with an error, leaving the object as it was, or with the object
  filled in. \<open>Create\<close> and \<open>Update\<close> answer with an error or nil.
\<close>

record 'c Client =
  Get :: "NamespacedName \<Rightarrow> Object \<Rightarrow> 'c \<Rightarrow> (error + Object) \<times> 'c"
  Create :: "Object \<Rightarrow> 'c \<Rightarrow> error option \<times> 'c"
  Update :: "Object \<Rightarrow> 'c \<Rightarrow> error option \<times> 'c"

text \<open>
  The calls an operation issues are recorded, in order, next to the store state, so that
  "no write was issued" is a statement about the operation and not about the store.
\<close>

datatype call = GetCall NamespacedName Object | CreateCall Object | UpdateCall Object

type_synonym 'c world = "'c \<times> call list"

definition client_Get ::
  "'c Client \<Rightarrow> NamespacedName \<Rightarrow> Object \<Rightarrow> 'c world \<Rightarrow> (error + Object) \<times> 'c world" where
  "client_Get cl key obj w =
     (case Get cl key obj (fst w) of (res, c') \<Rightarrow> (res, (c', snd w @ [GetCall key obj])))"

definition client_Create :: "'c Client \<Rightarrow> Object \<Rightarrow> 'c world \<Rightarrow> error option \<times> 'c world" where
  "client_Create cl obj w =
     (case Create cl obj (fst w) of (res, c') \<Rightarrow> (res, (c', snd w @ [CreateCall obj])))"

definition client_Update :: "'c Client \<Rightarrow> Object \<Rightarrow> 'c world \<Rightarrow> error option \<times> 'c world" where
  "client_Update cl obj w =
     (case Update cl obj (fst w) of (res, c') \<Rightarrow> (res, (c', snd w @ [UpdateCall obj])))"

section \<open>The sibling packages\<close>

text \<open>
  The names and the diff strategies of packages \<^verbatim>\<open>helmrepo\<close>, \<^verbatim>\<open>mcm\<close> and
  \<^verbatim>\<open>subscription\<close>, and the two helpers of package \<^verbatim>\<open>utils\<close> that
  \<^verbatim>\<open>copyPullSecret\<close> calls. A strategy returns the replacement and whether an update is
  needed.
\<close>

record Packages =
  HelmRepoName :: string
  APIServerName :: string
  ControllerName :: string
  WebhookName :: string
  helmrepo_ValidateDeployment :: "MultiClusterHub \<Rightarrow> CacheSpec \<Rightarrow> Object \<Rightarrow> Object \<times> bool"
  mcm_ValidateDeployment :: "MultiClusterHub \<Rightarrow> CacheSpec \<Rightarrow> Object \<Rightarrow> Object \<times> bool"
  subscription_Validate :: "Object \<Rightarrow> Object \<Rightarrow> Object \<times> bool"
  CoreToUnstructured :: "Object \<Rightarrow> error + Object"
  AddInstallerLabel :: "Object \<Rightarrow> string \<Rightarrow> string \<Rightarrow> Object"

text \<open>\<^verbatim>\<open>ReconcileMultiClusterHub\<close>: the client and the cache of image overrides.\<close>

record 'c ReconcileMultiClusterHub =
  client :: "'c Client"
  cacheSpec :: CacheSpec

section \<open>The ensure operations\<close>

definition ensureDeployment ::
  "Packages \<Rightarrow> 'c ReconcileMultiClusterHub \<Rightarrow> MultiClusterHub \<Rightarrow> Object \<Rightarrow> 'c world
     \<Rightarrow> ret \<times> 'c world" where
  "ensureDeployment pk r m dep w =
     (case client_Get (client r) (NamespacedName (Namespace m) (Name dep)) emptyDeployment w of
        (Inl e, w1) \<Rightarrow>
          if IsNotFound e then
            (case client_Create (client r) dep w1 of
               (Some e2, w2) \<Rightarrow> ((Some emptyResult, Some e2), w2)
             | (None, w2) \<Rightarrow> ((None, None), w2))
          else ((Some emptyResult, Some e), w1)
      | (Inr found, w1) \<Rightarrow>
          (case (if Name found = HelmRepoName pk
                 then Some (helmrepo_ValidateDeployment pk m (cacheSpec r) found)
                 else if Name found = APIServerName pk \<or> Name found = ControllerName pk
                         \<or> Name found = WebhookName pk
                 then Some (mcm_ValidateDeployment pk m (cacheSpec r) found)
                 else None) of
             None \<Rightarrow> ((None, None), w1)
           | Some (desired, needsUpdate) \<Rightarrow>
               if needsUpdate then
                 (case client_Update (client r) desired w1 of
                    (Some e2, w2) \<Rightarrow> ((Some emptyResult, Some e2), w2)
                  | (None, w2) \<Rightarrow> ((None, None), w2))
               else ((None, None), w1)))"

definition ensureService ::
  "'c ReconcileMultiClusterHub \<Rightarrow> MultiClusterHub \<Rightarrow> Object \<Rightarrow> 'c world \<Rightarrow> ret \<times> 'c world" where
  "ensureService r m s w =
     (case client_Get (client r) (NamespacedName (Namespace m) (Name s)) emptyService w of
        (Inl e, w1) \<Rightarrow>
          if IsNotFound e then
            (case client_Create (client r) s w1 of
               (Some e2, w2) \<Rightarrow> ((Some emptyResult, Some e2), w2)
             | (None, w2) \<Rightarrow> ((None, None), w2))
          else ((Some emptyResult, Some e), w1)
      | (Inr found, w1) \<Rightarrow> ((None, None), w1))"

definition ensureSecret ::
  "'c ReconcileMultiClusterHub \<Rightarrow> MultiClusterHub \<Rightarrow> Object \<Rightarrow> 'c world \<Rightarrow> ret \<times> 'c world" where
  "ensureSecret r m s w =
     (case client_Get (client r) (NamespacedName (Namespace m) (Name s)) emptySecret w of
        (Inl e, w1) \<Rightarrow>
          if IsNotFound e then
            (case client_Create (client r) s w1 of
               (Some e2, w2) \<Rightarrow> ((Some emptyResult, Some e2), w2)
             | (None, w2) \<Rightarrow> ((None, None), w2))
          else ((Some emptyResult, Some e), w1)
      | (Inr found, w1) \<Rightarrow> ((None, None), w1))"

definition ensureChannel ::
  "'c ReconcileMultiClusterHub \<Rightarrow> MultiClusterHub \<Rightarrow> Object \<Rightarrow> 'c world \<Rightarrow> ret \<times> 'c world" where
  "ensureChannel r m u w =
     (case client_Get (client r) (NamespacedName (Namespace m) (Name u))
             (emptyUnstructured ChannelGVK) w of
        (Inl e, w1) \<Rightarrow>
          if IsNotFound e then
            (case client_Create (client r) u w1 of
               (Some e2, w2) \<Rightarrow> ((Some emptyResult, Some e2), w2)
             | (None, w2) \<Rightarrow> ((None, None), w2))
          else ((Some emptyResult, Some e), w1)
      | (Inr found, w1) \<Rightarrow> ((None, None), w1))"

definition ensureSubscription ::
  "Packages \<Rightarrow> 'c ReconcileMultiClusterHub \<Rightarrow> MultiClusterHub \<Rightarrow> Object \<Rightarrow> 'c world
     \<Rightarrow> ret \<times> 'c world" where
  "ensureSubscription pk r m u w =
     (case client_Get (client r) (NamespacedName (Namespace u) (Name u))
             (emptyUnstructured SubscriptionGVK) w of
        (Inl e, w1) \<Rightarrow>
          if IsNotFound e then
            (if UID m \<noteq> [] then
               (case client_Create (client r) u w1 of
                  (Some e2, w2) \<Rightarrow> ((Some emptyResult, Some e2), w2)
                | (None, w2) \<Rightarrow> ((None, None), w2))
             else ((None, None), w1))
          else ((Some emptyResult, Some e), w1)
      | (Inr found, w1) \<Rightarrow>
          (case subscription_Validate pk found u of
             (updated, needsUpdate) \<Rightarrow>
               if needsUpdate then
                 (case client_Update (client r) updated w1 of
                    (Some e2, w2) \<Rightarrow> ((Some emptyResult, Some e2), w2)
                  | (None, w2) \<Rightarrow> ((None, None), w2))
               else ((None, None), w1)))"

section \<open>The readiness gate\<close>

text \<open>
  \<^verbatim>\<open>config.GetConfig\<close>, \<^verbatim>\<open>discovery.NewDiscoveryClientForConfig\<close> and
  \<^verbatim>\<open>discovery.ServerSupportsVersion\<close> belong to controller-runtime and client-go; they are
  parameters. The last one asks the server for its API groups and answers with an error or
  nil.
\<close>

record ('cfg, 'd) Discovery =
  GetConfig :: "error + 'cfg"
  NewDiscoveryClientForConfig :: "'cfg \<Rightarrow> error + 'd"
  ServerSupportsVersion :: "'d \<Rightarrow> GroupVersion \<Rightarrow> error option"

definition apiReady :: "('cfg, 'd) Discovery \<Rightarrow> GroupVersion \<Rightarrow> ret" where
  "apiReady dz gv =
     (case GetConfig dz of
        Inl e \<Rightarrow> (Some emptyResult, Some e)
      | Inr cfg \<Rightarrow>
          (case NewDiscoveryClientForConfig dz cfg of
             Inl e \<Rightarrow> (Some emptyResult, Some e)
           | Inr c \<Rightarrow>
               (case ServerSupportsVersion dz c gv of
                  Some e \<Rightarrow> (Some \<lparr>Requeue = False, RequeueAfter = Second * 10\<rparr>, None)
                | None \<Rightarrow> (None, None))))"

section \<open>Copying the pull secret\<close>

definition copyPullSecret ::
  "Packages \<Rightarrow> 'c ReconcileMultiClusterHub \<Rightarrow> MultiClusterHub \<Rightarrow> string \<Rightarrow> 'c world
     \<Rightarrow> ret \<times> 'c world" where
  "copyPullSecret pk r m newNS w =
     (case client_Get (client r) (NamespacedName (Namespace m) (ImagePullSecret m)) emptySecret w of
        (Inl e, w1) \<Rightarrow> ((Some emptyResult, Some e), w1)
      | (Inr fetched, w1) \<Rightarrow>
          (let pullSecret = fetched\<lparr>Namespace := newNS, SelfLink := [], ResourceVersion := [],
                                     UID := []\<rparr>
           in case CoreToUnstructured pk pullSecret of
                Inl e \<Rightarrow> ((Some emptyResult, Some e), w1)
              | Inr converted \<Rightarrow>
                  (let unstructuredPullSecret =
                         AddInstallerLabel pk converted (Name m) (Namespace m)
                   in case client_Get (client r)
                             (NamespacedName newNS (Name unstructuredPullSecret))
                             unstructuredPullSecret w1 of
                        (Inl e, w2) \<Rightarrow>
                          if IsNotFound e then
                            (case client_Create (client r) unstructuredPullSecret w2 of
                               (Some e2, w3) \<Rightarrow> ((Some emptyResult, Some e2), w3)
                             | (None, w3) \<Rightarrow> ((None, None), w3))
                          else ((None, None), w2)
                      | (Inr existing, w2) \<Rightarrow> ((None, None), w2))))"

section \<open>Reading the version file\<close>

text \<open>
  The standard library is a parameter too. \<^verbatim>\<open>os.Stat\<close> answers with an error and a nil
  \<^verbatim>\<open>FileInfo\<close>, or with the \<^verbatim>\<open>FileInfo\<close> and a nil error. A Go function either
  returns or panics; calling a method on a nil interface value panics.
\<close>

record FileInfo =
  IsDir :: bool

record OS =
  Stat :: "string \<Rightarrow> error + FileInfo"
  ReadFile :: "string \<Rightarrow> error + string"
  UserHomeDir :: "error + string"
  Clean :: "string \<Rightarrow> string"
  Join :: "string \<Rightarrow> string \<Rightarrow> string"
  TrimSpace :: "string \<Rightarrow> string"

datatype 'a go = Returns 'a | Panics string

definition nilDereference :: string where
  "nilDereference = ''runtime error: invalid memory address or nil pointer dereference''"

definition fileExists :: "OS \<Rightarrow> string \<Rightarrow> bool go" where
  "fileExists os path =
     (case Stat os path of
        Inl e \<Rightarrow> if IsNotExist (Some e) then Returns False else Panics nilDereference
      | Inr info \<Rightarrow> if IsNotExist None then Returns False else Returns (\<not> IsDir info))"

definition readFileRaw :: "OS \<Rightarrow> string \<Rightarrow> (string \<times> error option) go" where
  "readFileRaw os path =
     (case fileExists os path of
        Panics p \<Rightarrow> Panics p
      | Returns ex \<Rightarrow>
          if \<not> ex then Returns ([], Some (errorString (''File'' @ path @ ''does not exist'')))
          else (case ReadFile os (Clean os path) of
                  Inl e \<Rightarrow> Returns ([], Some e)
                | Inr data \<Rightarrow> Returns (data, None)))"

definition ReadComponentVersionFile :: "OS \<Rightarrow> (string \<times> error option) go" where
  "ReadComponentVersionFile os =
     (case UserHomeDir os of
        Inl e \<Rightarrow> Returns ([], Some e)
      | Inr home \<Rightarrow>
          (case readFileRaw os (Join os home ''COMPONENT_VERSION'') of
             Panics p \<Rightarrow> Panics p
           | Returns (data, Some e) \<Rightarrow> Returns ([], Some e)
           | Returns (data, None) \<Rightarrow> Returns (TrimSpace os data, None)))"

section \<open>Stores and helpers to run the reconciler on\<close>

text \<open>
  A scripted store: its state is the list of answers still to give, one per call. A call
  that the script did not foresee is answered with an error.
\<close>

datatype reply = GetReply "error + Object" | WriteReply "error option"

definition unexpectedCall :: error where
  "unexpectedCall = errorString ''unexpected call''"

definition scripted :: "reply list Client" where
  "scripted =
     \<lparr>Get = (\<lambda>key obj rs. case rs of GetReply a # rest \<Rightarrow> (a, rest) | _ \<Rightarrow> (Inl unexpectedCall, rs)),
      Create = (\<lambda>obj rs. case rs of WriteReply a # rest \<Rightarrow> (a, rest) | _ \<Rightarrow> (Some unexpectedCall, rs)),
      Update = (\<lambda>obj rs. case rs of WriteReply a # rest \<Rightarrow> (a, rest) | _ \<Rightarrow> (Some unexpectedCall, rs))\<rparr>"

text \<open>
  An in-memory store, as section 6 of the spec describes the remote one: it holds at most
  one resource per kind, namespace and name; \<open>Get\<close> answers not-found for a key it does
  not hold, \<open>Create\<close> stores a resource under its own kind, namespace and name unless the
  key is taken, \<open>Update\<close> replaces the resource under a key it holds. It has no failures
  of its own, and nothing else writes to it.
\<close>

type_synonym memory = "GroupVersionKind \<times> NamespacedName \<rightharpoonup> Object"




text \<open>
  Modelled from the spec: \<^verbatim>\<open>utils.CoreToUnstructured\<close>, which is not among the sources at
  hand. The target copy has "the same data payload": the conversion keeps metadata and
  payload as they are.
\<close>

definition CoreToUnstructured_spec :: "Object \<Rightarrow> error + Object" where
  "CoreToUnstructured_spec obj = Inr obj"

text \<open>
  Modelled from the spec: \<^verbatim>\<open>utils.AddInstallerLabel\<close>, which is not among the sources at
  hand. The provenance label "records which higher-level owner caused the copy": the name
  and the namespace of the owner, under two label keys, next to the labels already there.
\<close>

definition AddInstallerLabel_spec :: "Object \<Rightarrow> string \<Rightarrow> string \<Rightarrow> Object" where
  "AddInstallerLabel_spec u name ns =
     u\<lparr>Labels := (Labels u)(''installer.name'' \<mapsto> name, ''installer.namespace'' \<mapsto> ns)\<rparr>"

text \<open>Any packages, with the two helpers as modelled.\<close>

definition withUtils :: "Packages \<Rightarrow> Packages" where
  "withUtils pk = pk\<lparr>CoreToUnstructured := CoreToUnstructured_spec,
                     AddInstallerLabel := AddInstallerLabel_spec\<rparr>"

text \<open>
  Modelled from the spec: the diff strategy of a kind; \<^verbatim>\<open>helmrepo.ValidateDeployment\<close>,
  \<^verbatim>\<open>mcm.ValidateDeployment\<close> and \<^verbatim>\<open>subscription.Validate\<close> are not among the sources at
  hand. A strategy "compares an observed resource against policy-derived desired fields"; the
  fields it owns are the payload. An update is needed when the observed payload differs from
  the desired one, and the replacement is the observed resource with the desired payload:
  it "preserves all observed fields it does not manage".
\<close>

definition DiffStrategy_spec :: "(string \<times> string) list \<Rightarrow> Object \<Rightarrow> Object \<times> bool" where
  "DiffStrategy_spec desired observed = (observed\<lparr>Data := desired\<rparr>, Data observed \<noteq> desired)"

text \<open>
  Any packages, with the three strategies as modelled: the desired payload of a deployment
  comes from the policy of its package (\<open>hp\<close> for \<^verbatim>\<open>helmrepo\<close>, \<open>mp\<close> for \<^verbatim>\<open>mcm\<close>),
  that of a subscription from the desired subscription.
\<close>

definition withStrategies ::
  "(MultiClusterHub \<Rightarrow> CacheSpec \<Rightarrow> (string \<times> string) list)
     \<Rightarrow> (MultiClusterHub \<Rightarrow> CacheSpec \<Rightarrow> (string \<times> string) list) \<Rightarrow> Packages \<Rightarrow> Packages" where
  "withStrategies hp mp pk =
     pk\<lparr>helmrepo_ValidateDeployment := (\<lambda>m cs found. DiffStrategy_spec (hp m cs) found),
        mcm_ValidateDeployment := (\<lambda>m cs found. DiffStrategy_spec (mp m cs) found),
        subscription_Validate := (\<lambda>found u. DiffStrategy_spec (Data u) found)\<rparr>"

section \<open>The five ensure operations as one family\<close>

text \<open>
  The five operations share one shape and differ in the key they fetch, the object they
  fetch into, whether a guard stands before the create, and whether a diff strategy looks
  at a resource that is present. The definitions below name these differences, so that a
  property can be stated once for all five; \<open>ensure_run\<close> proves that they describe the
  operations as written above.
\<close>

datatype ensureOp =
  EnsureDeployment | EnsureService | EnsureSecret | EnsureChannel | EnsureSubscription

definition ensure ::
  "ensureOp \<Rightarrow> Packages \<Rightarrow> 'c ReconcileMultiClusterHub \<Rightarrow> MultiClusterHub \<Rightarrow> Object \<Rightarrow> 'c world
     \<Rightarrow> ret \<times> 'c world" where
  "ensure op pk r m obj =
     (case op of
        EnsureDeployment \<Rightarrow> ensureDeployment pk r m obj
      | EnsureService \<Rightarrow> ensureService r m obj
      | EnsureSecret \<Rightarrow> ensureSecret r m obj
      | EnsureChannel \<Rightarrow> ensureChannel r m obj
      | EnsureSubscription \<Rightarrow> ensureSubscription pk r m obj)"

text \<open>
  The key of the first \<open>Get\<close>: the desired object's name, in the owner's namespace, but
  for a subscription in the desired object's own namespace.
\<close>

definition fetchKey :: "ensureOp \<Rightarrow> MultiClusterHub \<Rightarrow> Object \<Rightarrow> NamespacedName" where
  "fetchKey op m obj =
     (case op of
        EnsureSubscription \<Rightarrow> NamespacedName (Namespace obj) (Name obj)
      | _ \<Rightarrow> NamespacedName (Namespace m) (Name obj))"

definition fetchInto :: "ensureOp \<Rightarrow> Object" where
  "fetchInto op =
     (case op of
        EnsureDeployment \<Rightarrow> emptyDeployment
      | EnsureService \<Rightarrow> emptyService
      | EnsureSecret \<Rightarrow> emptySecret
      | EnsureChannel \<Rightarrow> emptyUnstructured ChannelGVK
      | EnsureSubscription \<Rightarrow> emptyUnstructured SubscriptionGVK)"

text \<open>The guard \<^verbatim>\<open>m.UID != ""\<close> stands before the create of \<^verbatim>\<open>ensureSubscription\<close> only.\<close>

definition createSkipped :: "ensureOp \<Rightarrow> MultiClusterHub \<Rightarrow> bool" where
  "createSkipped op m = (op = EnsureSubscription \<and> UID m = [])"

text \<open>
  The diff strategy that looks at a resource that is present: the switch on the found name
  in \<^verbatim>\<open>ensureDeployment\<close>, \<^verbatim>\<open>subscription.Validate\<close> in \<^verbatim>\<open>ensureSubscription\<close>, none
  in the other three.
\<close>

definition strategy ::
  "ensureOp \<Rightarrow> Packages \<Rightarrow> 'c ReconcileMultiClusterHub \<Rightarrow> MultiClusterHub \<Rightarrow> Object \<Rightarrow> Object
     \<Rightarrow> (Object \<times> bool) option" where
  "strategy op pk r m obj found =
     (case op of
        EnsureDeployment \<Rightarrow>
          if Name found = HelmRepoName pk
          then Some (helmrepo_ValidateDeployment pk m (cacheSpec r) found)
          else if Name found = APIServerName pk \<or> Name found = ControllerName pk
                  \<or> Name found = WebhookName pk
          then Some (mcm_ValidateDeployment pk m (cacheSpec r) found)
          else None
      | EnsureSubscription \<Rightarrow> Some (subscription_Validate pk found obj)
      | _ \<Rightarrow> None)"

text \<open>What an operation returns after its last write: the write's error, or nil and nil.\<close>

definition finish :: "error option \<times> 'c \<Rightarrow> call list \<Rightarrow> ret \<times> 'c world" where
  "finish a tr = (case a of (Some e, c) \<Rightarrow> ((Some emptyResult, Some e), (c, tr))
                          | (None, c) \<Rightarrow> ((None, None), (c, tr)))"

text \<open>
  The two shapes of a returned pair: nil with nil, or the empty result with an error.
\<close>

definition paired :: "ret \<Rightarrow> bool" where
  "paired rt = (case rt of (None, None) \<Rightarrow> True
                         | (Some res, Some e) \<Rightarrow> res = emptyResult
                         | (Some res, None) \<Rightarrow> False
                         | (None, Some e) \<Rightarrow> False)"

section \<open>Concrete inputs\<close>

text \<open>
  A hub, its pull secret and a subscription, the names of the sibling packages, and two
  reconcilers: one on the scripted store, one on the in-memory store. The strategies of the
  example packages leave a deployment alone and replace the payload of a subscription that
  differs from the desired one.
\<close>

definition examplePackages :: Packages where
  "examplePackages =
     \<lparr>HelmRepoName = ''multiclusterhub-repo'', APIServerName = ''mcm-apiserver'',
      ControllerName = ''mcm-controller'', WebhookName = ''mcm-webhook'',
      helmrepo_ValidateDeployment = (\<lambda>m cs found. (found, False)),
      mcm_ValidateDeployment = (\<lambda>m cs found. (found, False)),
      subscription_Validate = (\<lambda>found u. (found\<lparr>Data := Data u\<rparr>, Data found \<noteq> Data u)),
      CoreToUnstructured = CoreToUnstructured_spec,
      AddInstallerLabel = AddInstallerLabel_spec\<rparr>"

definition hub :: MultiClusterHub where
  "hub = \<lparr>Name = ''multiclusterhub'', Namespace = ''open-cluster-management'', SelfLink = [],
           ResourceVersion = ''41'', UID = ''0b6c2e1a'', Labels = Map.empty,
           ImagePullSecret = ''quay-secret''\<rparr>"


definition scriptedReconciler :: "reply list ReconcileMultiClusterHub" where
  "scriptedReconciler = \<lparr>client = scripted, cacheSpec = \<lparr>ImageOverrides = []\<rparr>\<rparr>"


definition quaySecret :: Object where
  "quaySecret = emptySecret\<lparr>Name := ''quay-secret'', Namespace := ''open-cluster-management'',
     SelfLink := ''/api/v1/namespaces/open-cluster-management/secrets/quay-secret'',
     ResourceVersion := ''1207'', UID := ''5e1f9a44'',
     Data := [(''.dockerconfigjson'', ''e30K'')]\<rparr>"

definition forbidden :: error where
  "forbidden = StatusError StatusReasonForbidden ''secrets is forbidden''"

definition timedOut :: error where
  "timedOut = StatusError StatusReasonTimeout ''the server was unable to return a response in time''"

definition absent :: error where
  "absent = StatusError StatusReasonNotFound ''not found''"



text \<open>The pull secret with new content.\<close>

definition rotatedSecret :: Object where
  "rotatedSecret = quaySecret\<lparr>Data := [(''.dockerconfigjson'', ''e2F1dGhzOnt9fQo='')]\<rparr>"

text \<open>
  Three discovery set-ups: the server cannot be reached, the server answers and does not
  serve the group, the client configuration cannot be loaded.
\<close>

definition appsGV :: GroupVersion where
  "appsGV = \<lparr>Group = ''apps.open-cluster-management.io'', Version = ''v1''\<rparr>"

definition connectionRefused :: error where
  "connectionRefused = errorString ''Get https://api.hub:6443/api: dial tcp: connection refused''"

definition notServed :: error where
  "notServed = errorString ''server does not support API version apps.open-cluster-management.io/v1''"

definition unreachableDiscovery :: "(string, string) Discovery" where
  "unreachableDiscovery =
     \<lparr>GetConfig = Inr ''https://api.hub:6443'',
      NewDiscoveryClientForConfig = (\<lambda>cfg. Inr cfg),
      ServerSupportsVersion = (\<lambda>d gv. Some connectionRefused)\<rparr>"

definition unservedDiscovery :: "(string, string) Discovery" where
  "unservedDiscovery =
     \<lparr>GetConfig = Inr ''https://api.hub:6443'',
      NewDiscoveryClientForConfig = (\<lambda>cfg. Inr cfg),
      ServerSupportsVersion = (\<lambda>d gv. Some notServed)\<rparr>"

definition noConfig :: error where
  "noConfig = errorString ''could not locate a kubeconfig''"

definition unconfiguredDiscovery :: "(string, string) Discovery" where
  "unconfiguredDiscovery =
     \<lparr>GetConfig = Inl noConfig,
      NewDiscoveryClientForConfig = (\<lambda>cfg. Inr cfg),
      ServerSupportsVersion = (\<lambda>d gv. None)\<rparr>"

text \<open>A file system on which every \<^verbatim>\<open>stat\<close> and \<^verbatim>\<open>open\<close> is denied.\<close>

definition deniedOS :: OS where
  "deniedOS =
     \<lparr>Stat = (\<lambda>p. Inl (PathError ''stat'' p EACCES)),
      ReadFile = (\<lambda>p. Inl (PathError ''open'' p EACCES)),
      UserHomeDir = Inr ''/home/operator'',
      Clean = (\<lambda>p. p),
      Join = (\<lambda>a b. a @ ''/'' @ b),
      TrimSpace = (\<lambda>t. t)\<rparr>"

text \<open>
  The copy of the pull secret that belongs in namespace \<^verbatim>\<open>cert-manager\<close>, and a secret
  of that name that is there already.
\<close>

definition certManagerCopy :: Object where
  "certManagerCopy = quaySecret\<lparr>Namespace := ''cert-manager'', SelfLink := [],
     ResourceVersion := [], UID := [],
     Labels := [''installer.name'' \<mapsto> ''multiclusterhub'',
                ''installer.namespace'' \<mapsto> ''open-cluster-management'']\<rparr>"

definition olderCopy :: Object where
  "olderCopy = quaySecret\<lparr>Namespace := ''cert-manager'', ResourceVersion := ''977'',
     UID := ''c41d07b2'', Data := [(''.dockerconfigjson'', ''b2xkCg=='')]\<rparr>"

text \<open>
  The example of the spec: the policy asks for three replicas, the store holds the deployment
  with one replica and a label of somebody else's.
\<close>

definition threeReplicas :: "MultiClusterHub \<Rightarrow> CacheSpec \<Rightarrow> (string \<times> string) list" where
  "threeReplicas m cs = [(''replicaCount'', ''3'')]"

definition repoDeployment :: Object where
  "repoDeployment = emptyDeployment\<lparr>Name := ''multiclusterhub-repo'',
     Namespace := ''open-cluster-management'', Data := [(''replicaCount'', ''3'')]\<rparr>"

definition observedRepoDeployment :: Object where
  "observedRepoDeployment = repoDeployment\<lparr>ResourceVersion := ''310'', UID := ''a80c15d3'',
     Labels := [''team'' \<mapsto> ''infra''], Data := [(''replicaCount'', ''1'')]\<rparr>"







section \<open>How the operations run\<close>

text \<open>
  Each of the five operations fetches once and then takes one of five ways out: the fetch
  failed, the resource is absent and the guard skips the create, the resource is absent and
  is created, the resource is present and is updated, the resource is present and is left
  alone.
\<close>

lemma ensure_run:
  "ensure op pk r m obj (c, tr) =
     (case Get (client r) (fetchKey op m obj) (fetchInto op) c of
        (Inl e, c1) \<Rightarrow>
          if IsNotFound e then
            (if createSkipped op m
             then ((None, None), (c1, tr @ [GetCall (fetchKey op m obj) (fetchInto op)]))
             else finish (Create (client r) obj c1)
                    (tr @ [GetCall (fetchKey op m obj) (fetchInto op), CreateCall obj]))
          else ((Some emptyResult, Some e),
                (c1, tr @ [GetCall (fetchKey op m obj) (fetchInto op)]))
      | (Inr found, c1) \<Rightarrow>
          (case strategy op pk r m obj found of
             Some (replacement, True) \<Rightarrow>
               finish (Update (client r) replacement c1)
                 (tr @ [GetCall (fetchKey op m obj) (fetchInto op), UpdateCall replacement])
           | _ \<Rightarrow> ((None, None), (c1, tr @ [GetCall (fetchKey op m obj) (fetchInto op)]))))"
  by (cases op)
     (auto simp: ensure_def fetchKey_def fetchInto_def createSkipped_def strategy_def finish_def
        ensureDeployment_def ensureService_def ensureSecret_def ensureChannel_def
        ensureSubscription_def client_Get_def client_Create_def client_Update_def
      split: prod.splits sum.splits option.splits if_splits bool.splits)

lemma ensure_fetch_failed:
  "Get (client r) (fetchKey op m obj) (fetchInto op) c = (Inl e, c1) \<Longrightarrow> \<not> IsNotFound e \<Longrightarrow>
   ensure op pk r m obj (c, tr) =
     ((Some emptyResult, Some e), (c1, tr @ [GetCall (fetchKey op m obj) (fetchInto op)]))"
  by (simp add: ensure_run)

lemma ensure_absent:
  "Get (client r) (fetchKey op m obj) (fetchInto op) c = (Inl e, c1) \<Longrightarrow> IsNotFound e \<Longrightarrow>
   ensure op pk r m obj (c, tr) =
     (if createSkipped op m
      then ((None, None), (c1, tr @ [GetCall (fetchKey op m obj) (fetchInto op)]))
      else finish (Create (client r) obj c1)
             (tr @ [GetCall (fetchKey op m obj) (fetchInto op), CreateCall obj]))"
  by (simp add: ensure_run)

lemma ensure_present:
  "Get (client r) (fetchKey op m obj) (fetchInto op) c = (Inr found, c1) \<Longrightarrow>
   ensure op pk r m obj (c, tr) =
     (case strategy op pk r m obj found of
        Some (replacement, True) \<Rightarrow>
          finish (Update (client r) replacement c1)
            (tr @ [GetCall (fetchKey op m obj) (fetchInto op), UpdateCall replacement])
      | _ \<Rightarrow> ((None, None), (c1, tr @ [GetCall (fetchKey op m obj) (fetchInto op)])))"
  by (simp add: ensure_run)

lemma strategy_none:
  "op \<in> {EnsureService, EnsureSecret, EnsureChannel} \<Longrightarrow> strategy op pk r m obj found = None"
  by (auto simp: strategy_def)

lemma fst_finish:
  "fst (finish a tr) = (case fst a of None \<Rightarrow> (None, None) | Some e \<Rightarrow> (Some emptyResult, Some e))"
  by (cases a) (simp add: finish_def split: option.splits)

lemma snd_finish: "snd (finish a tr) = (snd a, tr)"
  by (cases a) (simp add: finish_def split: option.splits)

section \<open>Creation only on not-found\<close>

text \<open>
  Claim C1. For each of the five ensure operations: a create is among the calls the
  operation issues only if its fetch was answered with a not-found error; and if the fetch
  was answered with any other error, the operation returns the empty result with that very
  error, having issued the fetch and nothing else, and leaves the store as the fetch left
  it.
\<close>

theorem ensure_creates_only_when_absent:
  "(CreateCall x \<in> set (snd (snd (ensure op pk r m obj (c, tr)))) \<and> CreateCall x \<notin> set tr
      \<longrightarrow> (\<exists>e. fst (Get (client r) (fetchKey op m obj) (fetchInto op) c) = Inl e \<and> IsNotFound e))
   \<and> (fst (Get (client r) (fetchKey op m obj) (fetchInto op) c) = Inl e \<and> \<not> IsNotFound e
      \<longrightarrow> ensure op pk r m obj (c, tr) =
            ((Some emptyResult, Some e),
             (snd (Get (client r) (fetchKey op m obj) (fetchInto op) c),
              tr @ [GetCall (fetchKey op m obj) (fetchInto op)])))"
  by (auto simp: ensure_run finish_def split: prod.splits sum.splits option.splits bool.splits if_splits)

text \<open>
  On the scripted store: a fetch of the pull secret that is forbidden is returned as it is
  and nothing is written; a fetch that finds nothing is followed by the create.
\<close>

theorem ensure_creates_only_when_absent_witness:
  "\<not> IsNotFound forbidden \<and>
   ensure EnsureSecret examplePackages scriptedReconciler hub quaySecret
      ([GetReply (Inl forbidden)], []) =
     ((Some emptyResult, Some forbidden),
      ([], [GetCall (NamespacedName ''open-cluster-management'' ''quay-secret'') emptySecret]))
   \<and> CreateCall quaySecret \<in> set (snd (snd (ensure EnsureSecret examplePackages scriptedReconciler
         hub quaySecret ([GetReply (Inl absent), WriteReply None], []))))
   \<and> (\<exists>e. fst (Get (client scriptedReconciler) (fetchKey EnsureSecret hub quaySecret)
                (fetchInto EnsureSecret) [GetReply (Inl absent), WriteReply None]) = Inl e
            \<and> IsNotFound e)"
  using ensure_creates_only_when_absent
          [of _ EnsureSecret examplePackages scriptedReconciler hub quaySecret
              "[GetReply (Inl forbidden)]" "[]" forbidden]
        ensure_creates_only_when_absent
          [of quaySecret EnsureSecret examplePackages scriptedReconciler hub quaySecret
              "[GetReply (Inl absent), WriteReply None]" "[]"]
  by (simp add: ensure_def ensureSecret_def client_Get_def client_Create_def fetchKey_def
        fetchInto_def scriptedReconciler_def scripted_def unexpectedCall_def hub_def
        quaySecret_def emptySecret_def emptyObject_def emptyGVK_def emptyResult_def forbidden_def absent_def)

section \<open>The guard on the owner's UID\<close>




section \<open>The readiness gate\<close>

text \<open>
  When the discovery endpoint cannot be reached, it is \<^verbatim>\<open>ServerSupportsVersion\<close> that
  answers with the error, and \<^verbatim>\<open>apiReady\<close> takes that error for "not served yet": it
  returns a delay of ten seconds and no error.
\<close>

theorem apiReady_unreachable_requeues:
  "ServerSupportsVersion unreachableDiscovery ''https://api.hub:6443'' appsGV = Some connectionRefused
   \<and> apiReady unreachableDiscovery appsGV =
         (Some \<lparr>Requeue = False, RequeueAfter = 10000000000\<rparr>, None)"
  by (simp add: apiReady_def unreachableDiscovery_def Second_def)

text \<open>
  Claim C3, as the code has it. Whenever the version probe answers with an error, be it
  that the group is not served or that the server cannot be reached, \<^verbatim>\<open>apiReady\<close>
  returns a result with a delay of ten seconds (its \<open>Requeue\<close> flag is left unset) and no
  error. It returns an error only when the client configuration or the discovery client
  cannot be built, and then with the empty result, which has no delay.
\<close>

theorem apiReady_probe_error_requeues:
  "(GetConfig dz = Inr cfg \<and> NewDiscoveryClientForConfig dz cfg = Inr d
      \<and> ServerSupportsVersion dz d gv = Some e
      \<longrightarrow> apiReady dz gv = (Some \<lparr>Requeue = False, RequeueAfter = 10 * Second\<rparr>, None))
   \<and> (snd (apiReady dz gv) = Some e'
      \<longrightarrow> fst (apiReady dz gv) = Some emptyResult
          \<and> (GetConfig dz = Inl e'
               \<or> (\<exists>cfg'. GetConfig dz = Inr cfg' \<and> NewDiscoveryClientForConfig dz cfg' = Inl e')))"
  by (auto simp: apiReady_def split: sum.splits option.splits)

theorem apiReady_probe_error_requeues_witness:
  "apiReady unservedDiscovery appsGV = (Some \<lparr>Requeue = False, RequeueAfter = 10 * Second\<rparr>, None)
   \<and> apiReady unconfiguredDiscovery appsGV = (Some emptyResult, Some noConfig)"
  using apiReady_probe_error_requeues
          [of unservedDiscovery "''https://api.hub:6443''" "''https://api.hub:6443''" appsGV
              notServed]
        apiReady_probe_error_requeues [of unconfiguredDiscovery _ _ appsGV _ noConfig]
  by (simp add: unservedDiscovery_def unconfiguredDiscovery_def apiReady_def)

section \<open>Updates\<close>

text \<open>
  \<^verbatim>\<open>ensureSecret\<close> never updates: the store holds the pull secret with other content than
  the desired one, and the operation returns nil and nil after the fetch alone.
\<close>

theorem ensureSecret_never_updates:
  "Data rotatedSecret \<noteq> Data quaySecret \<and>
   ensureSecret scriptedReconciler hub rotatedSecret ([GetReply (Inr quaySecret)], []) =
     ((None, None),
      ([], [GetCall (NamespacedName ''open-cluster-management'' ''quay-secret'') emptySecret]))"
  by (simp add: ensureSecret_def client_Get_def scriptedReconciler_def scripted_def unexpectedCall_def hub_def
        rotatedSecret_def quaySecret_def emptySecret_def emptyObject_def emptyGVK_def)

lemma strategy_spec_preserves:
  "strategy op (withStrategies hp mp pk) r m obj found = Some (replacement, needsUpdate) \<Longrightarrow>
   replacement\<lparr>Data := Data found\<rparr> = found \<and> needsUpdate = (Data replacement \<noteq> Data found)"
  by (cases op) (auto simp: strategy_def withStrategies_def DiffStrategy_spec_def split: if_splits)

lemma ensure_update_run:
  assumes "Get (client r) (fetchKey op m obj) (fetchInto op) c = (Inr found, c1)"
    and "strategy op pk r m obj found = Some (replacement, True)"
  shows "ensure op pk r m obj (c, tr) =
           finish (Update (client r) replacement c1)
             (tr @ [GetCall (fetchKey op m obj) (fetchInto op), UpdateCall replacement])"
  using assms(2) by (simp add: ensure_present [OF assms(1)])

text \<open>
  Claim C4, as the code has it. With the diff strategies as modelled: for a resource that is
  present and for which the strategy of its kind asks for an update, \<^verbatim>\<open>ensureDeployment\<close>
  (for the names it knows) and \<^verbatim>\<open>ensureSubscription\<close> issue one update; it carries the
  strategy's replacement, which differs from the observed resource in the payload and in
  nothing else, and the operation returns nil and nil if the store accepts it and the
  store's error with the empty result if not. \<^verbatim>\<open>ensureService\<close>, \<^verbatim>\<open>ensureSecret\<close> and
  \<^verbatim>\<open>ensureChannel\<close> have no strategy: whatever the packages are, for a resource that is
  present they issue no write and return nil and nil.
\<close>

theorem ensure_update_keeps_unmanaged:
  "fst (Get (client r) (fetchKey op m obj) (fetchInto op) c) = Inr found \<longrightarrow>
     (strategy op (withStrategies hp mp pk) r m obj found = Some (replacement, True) \<longrightarrow>
        snd (snd (ensure op (withStrategies hp mp pk) r m obj (c, tr))) =
          tr @ [GetCall (fetchKey op m obj) (fetchInto op), UpdateCall replacement]
        \<and> fst (ensure op (withStrategies hp mp pk) r m obj (c, tr)) =
            (case fst (Update (client r) replacement
                         (snd (Get (client r) (fetchKey op m obj) (fetchInto op) c))) of
               None \<Rightarrow> (None, None)
             | Some e \<Rightarrow> (Some emptyResult, Some e))
        \<and> replacement\<lparr>Data := Data found\<rparr> = found
        \<and> Data replacement \<noteq> Data found)
     \<and> (op \<in> {EnsureService, EnsureSecret, EnsureChannel} \<longrightarrow>
          ensure op pk' r m obj (c, tr) =
            ((None, None),
             (snd (Get (client r) (fetchKey op m obj) (fetchInto op) c),
              tr @ [GetCall (fetchKey op m obj) (fetchInto op)])))"
proof (cases "Get (client r) (fetchKey op m obj) (fetchInto op) c")
  case (Pair a c1)
  show ?thesis
  proof (cases a)
    case (Inl e)
    with Pair show ?thesis by simp
  next
    case (Inr found')
    with Pair have run: "Get (client r) (fetchKey op m obj) (fetchInto op) c = (Inr found', c1)"
      by simp
    have quiet: "op \<in> {EnsureService, EnsureSecret, EnsureChannel} \<Longrightarrow>
          ensure op pk' r m obj (c, tr) =
            ((None, None), (c1, tr @ [GetCall (fetchKey op m obj) (fetchInto op)]))"
      by (simp add: ensure_present [OF run] strategy_none)
    have update: "strategy op (withStrategies hp mp pk) r m obj found' = Some (replacement, True) \<Longrightarrow>
          ensure op (withStrategies hp mp pk) r m obj (c, tr) =
            finish (Update (client r) replacement c1)
              (tr @ [GetCall (fetchKey op m obj) (fetchInto op), UpdateCall replacement])"
      by (rule ensure_update_run [OF run])
    show ?thesis
      using Pair Inr quiet update strategy_spec_preserves [of op hp mp pk r m obj found' replacement True]
      by (auto simp: fst_finish snd_finish)
  qed
qed

text \<open>
  The example of the spec on the scripted store: the deployment observed with one replica is
  updated to three and keeps the label \<^verbatim>\<open>team=infra\<close>; the pull secret with other content
  is left alone.
\<close>

theorem ensure_update_keeps_unmanaged_witness:
  "observedRepoDeployment\<lparr>Data := [(''replicaCount'', ''3'')]\<rparr>\<lparr>Data := Data observedRepoDeployment\<rparr>
     = observedRepoDeployment
   \<and> ensure EnsureDeployment (withStrategies threeReplicas threeReplicas examplePackages)
         scriptedReconciler hub repoDeployment
         ([GetReply (Inr observedRepoDeployment), WriteReply None], []) =
       ((None, None),
        ([], [GetCall (NamespacedName ''open-cluster-management'' ''multiclusterhub-repo'')
                emptyDeployment,
              UpdateCall (observedRepoDeployment\<lparr>Data := [(''replicaCount'', ''3'')]\<rparr>)]))
   \<and> Labels (observedRepoDeployment\<lparr>Data := [(''replicaCount'', ''3'')]\<rparr>) ''team'' = Some ''infra''
   \<and> ensure EnsureSecret examplePackages scriptedReconciler hub rotatedSecret
         ([GetReply (Inr quaySecret)], []) =
       ((None, None),
        ([], [GetCall (NamespacedName ''open-cluster-management'' ''quay-secret'') emptySecret]))"
proof -
  let ?pk = "withStrategies threeReplicas threeReplicas examplePackages"
  let ?repl = "observedRepoDeployment\<lparr>Data := [(''replicaCount'', ''3'')]\<rparr>"
  have found: "fst (Get (client scriptedReconciler)
                 (fetchKey EnsureDeployment hub repoDeployment) (fetchInto EnsureDeployment)
                 [GetReply (Inr observedRepoDeployment), WriteReply None]) = Inr observedRepoDeployment"
    by (simp add: scriptedReconciler_def scripted_def)
  have asks: "strategy EnsureDeployment ?pk scriptedReconciler hub repoDeployment
                observedRepoDeployment = Some (?repl, True)"
    by (simp add: strategy_def withStrategies_def DiffStrategy_spec_def threeReplicas_def
          examplePackages_def observedRepoDeployment_def repoDeployment_def)
  have accepted: "fst (Update (client scriptedReconciler) ?repl [WriteReply None]) = None"
    by (simp add: scriptedReconciler_def scripted_def)
  have rest: "snd (Get (client scriptedReconciler)
                 (fetchKey EnsureDeployment hub repoDeployment) (fetchInto EnsureDeployment)
                 [GetReply (Inr observedRepoDeployment), WriteReply None]) = [WriteReply None]"
    by (simp add: scriptedReconciler_def scripted_def)
  have present: "fst (Get (client scriptedReconciler)
                 (fetchKey EnsureSecret hub rotatedSecret) (fetchInto EnsureSecret)
                 [GetReply (Inr quaySecret)]) = Inr quaySecret"
    by (simp add: scriptedReconciler_def scripted_def)
  have after: "snd (Get (client scriptedReconciler)
                 (fetchKey EnsureSecret hub rotatedSecret) (fetchInto EnsureSecret)
                 [GetReply (Inr quaySecret)]) = []"
    by (simp add: scriptedReconciler_def scripted_def)
  have keys: "fetchKey EnsureDeployment hub repoDeployment =
                NamespacedName ''open-cluster-management'' ''multiclusterhub-repo''"
             "fetchKey EnsureSecret hub rotatedSecret =
                NamespacedName ''open-cluster-management'' ''quay-secret''"
             "fetchInto EnsureDeployment = emptyDeployment" "fetchInto EnsureSecret = emptySecret"
    by (simp_all add: fetchKey_def fetchInto_def hub_def repoDeployment_def rotatedSecret_def
          quaySecret_def)
  have label: "Labels ?repl ''team'' = Some ''infra''"
    by (simp add: observedRepoDeployment_def)
  have a: "ensure EnsureDeployment ?pk scriptedReconciler hub repoDeployment
             ([GetReply (Inr observedRepoDeployment), WriteReply None], []) =
           ((None, None), ([], [GetCall (fetchKey EnsureDeployment hub repoDeployment)
                                   (fetchInto EnsureDeployment), UpdateCall ?repl]))"
    by (simp add: ensure_def ensureDeployment_def client_Get_def client_Update_def
          scriptedReconciler_def scripted_def withStrategies_def DiffStrategy_spec_def
          threeReplicas_def examplePackages_def observedRepoDeployment_def repoDeployment_def
          fetchKey_def fetchInto_def hub_def)
  show ?thesis
    using ensure_update_keeps_unmanaged [where r = scriptedReconciler and op = EnsureDeployment and m = hub
                and obj = repoDeployment
                and c = "[GetReply (Inr observedRepoDeployment), WriteReply None]"
                and found = observedRepoDeployment and hp = threeReplicas and mp = threeReplicas
                and pk = examplePackages and replacement = ?repl and tr = "[]"
                and pk' = examplePackages]
          ensure_update_keeps_unmanaged [where r = scriptedReconciler and op = EnsureSecret and m = hub
                and obj = rotatedSecret and c = "[GetReply (Inr quaySecret)]"
                and found = quaySecret and tr = "[]" and pk' = examplePackages
                and pk = examplePackages and hp = threeReplicas and mp = threeReplicas]
          found asks accepted rest present after keys label a
    by simp
qed

section \<open>Copying the pull secret: one shot\<close>

text \<open>
  Once the source secret is fetched and converted, \<^verbatim>\<open>copyPullSecret\<close> looks for the copy
  in the target namespace and takes one of three ways out.
\<close>

lemma copyPullSecret_run:
  assumes "Get (client r) (NamespacedName (Namespace m) (ImagePullSecret m)) emptySecret c = (Inr src, c1)"
    and "CoreToUnstructured pk
           (src\<lparr>Namespace := newNS, SelfLink := [], ResourceVersion := [], UID := []\<rparr>) = Inr conv"
    and "u = AddInstallerLabel pk conv (Name m) (Namespace m)"
    and "Get (client r) (NamespacedName newNS (Name u)) u c1 = (a, c2)"
  shows "copyPullSecret pk r m newNS (c, tr) =
           (case a of
              Inl e \<Rightarrow>
                if IsNotFound e
                then finish (Create (client r) u c2)
                       (tr @ [GetCall (NamespacedName (Namespace m) (ImagePullSecret m)) emptySecret,
                              GetCall (NamespacedName newNS (Name u)) u, CreateCall u])
                else ((None, None),
                      (c2, tr @ [GetCall (NamespacedName (Namespace m) (ImagePullSecret m)) emptySecret,
                                 GetCall (NamespacedName newNS (Name u)) u]))
            | Inr existing \<Rightarrow>
                ((None, None),
                 (c2, tr @ [GetCall (NamespacedName (Namespace m) (ImagePullSecret m)) emptySecret,
                            GetCall (NamespacedName newNS (Name u)) u])))"
  using assms
  by (simp add: copyPullSecret_def client_Get_def client_Create_def finish_def Let_def
           split: sum.splits prod.splits option.splits)

text \<open>
  Claim C5. Let the source secret be fetched and converted, and let \<open>u\<close> be the labelled
  copy. If the target namespace answers the fetch of \<open>u\<close>'s name with a secret,
  \<^verbatim>\<open>copyPullSecret\<close> returns nil and nil having issued the two fetches and no write, and
  the store is as the second fetch left it. If the answer is not-found, it issues exactly
  one write, the create of \<open>u\<close>, and returns nil and nil if the store accepts it.
\<close>

theorem copyPullSecret_one_shot:
  assumes "Get (client r) (NamespacedName (Namespace m) (ImagePullSecret m)) emptySecret c = (Inr src, c1)"
    and "CoreToUnstructured pk
           (src\<lparr>Namespace := newNS, SelfLink := [], ResourceVersion := [], UID := []\<rparr>) = Inr conv"
    and "u = AddInstallerLabel pk conv (Name m) (Namespace m)"
    and "Get (client r) (NamespacedName newNS (Name u)) u c1 = (a, c2)"
  shows "(a = Inr existing \<longrightarrow>
            copyPullSecret pk r m newNS (c, tr) =
              ((None, None),
               (c2, tr @ [GetCall (NamespacedName (Namespace m) (ImagePullSecret m)) emptySecret,
                          GetCall (NamespacedName newNS (Name u)) u])))
       \<and> (a = Inl e \<and> IsNotFound e \<longrightarrow>
            snd (snd (copyPullSecret pk r m newNS (c, tr))) =
              tr @ [GetCall (NamespacedName (Namespace m) (ImagePullSecret m)) emptySecret,
                    GetCall (NamespacedName newNS (Name u)) u, CreateCall u]
            \<and> fst (copyPullSecret pk r m newNS (c, tr)) =
                (case fst (Create (client r) u c2) of
                   None \<Rightarrow> (None, None)
                 | Some e2 \<Rightarrow> (Some emptyResult, Some e2)))"
  by (simp add: copyPullSecret_run [OF assms] Let_def fst_finish snd_finish)

theorem copyPullSecret_one_shot_witness:
  "copyPullSecret examplePackages scriptedReconciler hub ''cert-manager''
      ([GetReply (Inr quaySecret), GetReply (Inr olderCopy)], []) =
     ((None, None),
      ([], [GetCall (NamespacedName ''open-cluster-management'' ''quay-secret'') emptySecret,
            GetCall (NamespacedName ''cert-manager'' ''quay-secret'') certManagerCopy]))
   \<and> fst (copyPullSecret examplePackages scriptedReconciler hub ''cert-manager''
      ([GetReply (Inr quaySecret), GetReply (Inl absent), WriteReply None], [])) = (None, None)
   \<and> snd (snd (copyPullSecret examplePackages scriptedReconciler hub ''cert-manager''
      ([GetReply (Inr quaySecret), GetReply (Inl absent), WriteReply None], []))) =
     [GetCall (NamespacedName ''open-cluster-management'' ''quay-secret'') emptySecret,
      GetCall (NamespacedName ''cert-manager'' ''quay-secret'') certManagerCopy,
      CreateCall certManagerCopy]"
proof -
  let ?prepared = "quaySecret\<lparr>Namespace := ''cert-manager'', SelfLink := [],
                     ResourceVersion := [], UID := []\<rparr>"
  have conv: "CoreToUnstructured examplePackages ?prepared = Inr ?prepared"
    by (simp add: examplePackages_def CoreToUnstructured_spec_def)
  have u: "certManagerCopy = AddInstallerLabel examplePackages ?prepared (Name hub) (Namespace hub)"
    by (simp add: certManagerCopy_def examplePackages_def AddInstallerLabel_spec_def hub_def
          quaySecret_def emptySecret_def emptyObject_def)
  have name: "Name certManagerCopy = ''quay-secret''"
    by (simp add: certManagerCopy_def quaySecret_def)
  have src: "\<And>rest. Get (client scriptedReconciler)
               (NamespacedName (Namespace hub) (ImagePullSecret hub)) emptySecret
               (GetReply (Inr quaySecret) # rest) = (Inr quaySecret, rest)"
    by (simp add: scriptedReconciler_def scripted_def)
  have present: "Get (client scriptedReconciler)
               (NamespacedName ''cert-manager'' (Name certManagerCopy)) certManagerCopy
               [GetReply (Inr olderCopy)] = (Inr olderCopy, [])"
    by (simp add: scriptedReconciler_def scripted_def)
  have missing: "Get (client scriptedReconciler)
               (NamespacedName ''cert-manager'' (Name certManagerCopy)) certManagerCopy
               [GetReply (Inl absent), WriteReply None] = (Inl absent, [WriteReply None])"
    by (simp add: scriptedReconciler_def scripted_def)
  have created: "Create (client scriptedReconciler) certManagerCopy [WriteReply None] = (None, [])"
    by (simp add: scriptedReconciler_def scripted_def)
  have nf: "IsNotFound absent"
    by (simp add: absent_def)
  show ?thesis
    using copyPullSecret_one_shot [OF src conv u present, where existing = olderCopy and tr = "[]"]
          copyPullSecret_one_shot [OF src conv u missing, where e = absent and tr = "[]"]
          nf created name
    by (simp add: hub_def prod_eq_iff)
qed

section \<open>Copying the pull secret: the copy\<close>

text \<open>
  Claim C6. With the helpers of package \<^verbatim>\<open>utils\<close> as modelled: when the source secret
  \<open>src\<close> is fetched and the target namespace does not hold a secret of its name, the
  object that \<^verbatim>\<open>copyPullSecret\<close> creates is in the target namespace, has no resource
  version, no self-link and no UID, carries the two installer labels with the owner's name
  and namespace, and has the name, the kind and the data of \<open>src\<close>.
\<close>

theorem copyPullSecret_target_copy:
  assumes "Get (client r) (NamespacedName (Namespace m) (ImagePullSecret m)) emptySecret c = (Inr src, c1)"
    and "u = AddInstallerLabel_spec
               (src\<lparr>Namespace := newNS, SelfLink := [], ResourceVersion := [], UID := []\<rparr>)
               (Name m) (Namespace m)"
    and "Get (client r) (NamespacedName newNS (Name src)) u c1 = (Inl e, c2)"
    and "IsNotFound e"
  shows "snd (snd (copyPullSecret (withUtils pk) r m newNS (c, tr))) =
           tr @ [GetCall (NamespacedName (Namespace m) (ImagePullSecret m)) emptySecret,
                 GetCall (NamespacedName newNS (Name src)) u, CreateCall u]
       \<and> Namespace u = newNS \<and> ResourceVersion u = [] \<and> SelfLink u = [] \<and> UID u = []
       \<and> Labels u ''installer.name'' = Some (Name m)
       \<and> Labels u ''installer.namespace'' = Some (Namespace m)
       \<and> Name u = Name src \<and> gvk u = gvk src \<and> Data u = Data src"
proof -
  let ?prepared = "src\<lparr>Namespace := newNS, SelfLink := [], ResourceVersion := [], UID := []\<rparr>"
  have conv: "CoreToUnstructured (withUtils pk) ?prepared = Inr ?prepared"
    by (simp add: withUtils_def CoreToUnstructured_spec_def)
  have u': "u = AddInstallerLabel (withUtils pk) ?prepared (Name m) (Namespace m)"
    by (simp add: assms(2) withUtils_def)
  have name: "Name u = Name src"
    by (simp add: assms(2) AddInstallerLabel_spec_def)
  have get2: "Get (client r) (NamespacedName newNS (Name u)) u c1 = (Inl e, c2)"
    using assms(3) name by simp
  have "snd (snd (copyPullSecret (withUtils pk) r m newNS (c, tr))) =
           tr @ [GetCall (NamespacedName (Namespace m) (ImagePullSecret m)) emptySecret,
                 GetCall (NamespacedName newNS (Name src)) u, CreateCall u]"
    using assms(4) name
    by (simp add: copyPullSecret_run [OF assms(1) conv u' get2] Let_def snd_finish)
  then show ?thesis
    by (simp add: assms(2) AddInstallerLabel_spec_def)
qed

theorem copyPullSecret_target_copy_witness:
  "snd (snd (copyPullSecret (withUtils examplePackages) scriptedReconciler hub ''cert-manager''
      ([GetReply (Inr quaySecret), GetReply (Inl absent), WriteReply None], []))) =
     [GetCall (NamespacedName ''open-cluster-management'' ''quay-secret'') emptySecret,
      GetCall (NamespacedName ''cert-manager'' ''quay-secret'') certManagerCopy,
      CreateCall certManagerCopy]
   \<and> Namespace certManagerCopy = ''cert-manager'' \<and> ResourceVersion certManagerCopy = []
   \<and> SelfLink certManagerCopy = [] \<and> UID certManagerCopy = []
   \<and> Labels certManagerCopy ''installer.name'' = Some ''multiclusterhub''
   \<and> Labels certManagerCopy ''installer.namespace'' = Some ''open-cluster-management''
   \<and> Data certManagerCopy = Data quaySecret"
proof -
  have u: "certManagerCopy = AddInstallerLabel_spec
             (quaySecret\<lparr>Namespace := ''cert-manager'', SelfLink := [], ResourceVersion := [],
                           UID := []\<rparr>) (Name hub) (Namespace hub)"
    by (simp add: certManagerCopy_def AddInstallerLabel_spec_def hub_def
          quaySecret_def emptySecret_def emptyObject_def)
  have src: "Get (client scriptedReconciler)
               (NamespacedName (Namespace hub) (ImagePullSecret hub)) emptySecret
               [GetReply (Inr quaySecret), GetReply (Inl absent), WriteReply None] =
             (Inr quaySecret, [GetReply (Inl absent), WriteReply None])"
    by (simp add: scriptedReconciler_def scripted_def)
  have missing: "Get (client scriptedReconciler)
               (NamespacedName ''cert-manager'' (Name quaySecret)) certManagerCopy
               [GetReply (Inl absent), WriteReply None] = (Inl absent, [WriteReply None])"
    by (simp add: scriptedReconciler_def scripted_def)
  have nf: "IsNotFound absent"
    by (simp add: absent_def)
  show ?thesis
    using copyPullSecret_target_copy [OF src u missing nf, where pk = examplePackages and tr = "[]"]
    by (simp add: hub_def quaySecret_def)
qed

section \<open>An error that is lost\<close>

text \<open>
  Claim C7 asks that no store error is swallowed. The five ensure operations return every
  error they are given (\<open>ensure_run\<close>). \<^verbatim>\<open>copyPullSecret\<close> does not: when its second
  fetch, into the target namespace, times out, it returns nil and nil.
\<close>

theorem copyPullSecret_swallows_fetch_error:
  "fst (copyPullSecret examplePackages scriptedReconciler hub ''cert-manager''
          ([GetReply (Inr quaySecret), GetReply (Inl timedOut)], [])) = (None, None)
   \<and> \<not> IsNotFound timedOut"
  by (simp add: copyPullSecret_def client_Get_def examplePackages_def CoreToUnstructured_spec_def
        AddInstallerLabel_spec_def scriptedReconciler_def scripted_def unexpectedCall_def hub_def
        quaySecret_def emptySecret_def emptyObject_def emptyGVK_def timedOut_def)

section \<open>Twice in a row\<close>




section \<open>A panic\<close>

text \<open>
  \<^verbatim>\<open>fileExists\<close> tells "does not exist" from everything else, and takes everything else
  for success: any other error of \<^verbatim>\<open>stat\<close> ends in a call on the nil \<^verbatim>\<open>FileInfo\<close>.
\<close>

lemma fileExists_stat_error:
  "Stat os path = Inl e \<Longrightarrow> \<not> IsNotExist (Some e) \<Longrightarrow> fileExists os path = Panics nilDereference"
  by (simp add: fileExists_def)

lemma readFileRaw_stat_error:
  "Stat os path = Inl e \<Longrightarrow> \<not> IsNotExist (Some e) \<Longrightarrow> readFileRaw os path = Panics nilDereference"
  by (simp add: readFileRaw_def fileExists_stat_error)

text \<open>
  Claim C9 asks that no input makes \<^verbatim>\<open>readFileRaw\<close> or \<^verbatim>\<open>ReadComponentVersionFile\<close>
  panic. Where \<^verbatim>\<open>stat\<close> is denied, \<^verbatim>\<open>fileExists\<close> calls \<^verbatim>\<open>IsDir\<close> on the nil
  \<^verbatim>\<open>FileInfo\<close>, and both functions panic.
\<close>

theorem readFileRaw_panics_on_stat_error:
  "Stat deniedOS ''/home/operator/COMPONENT_VERSION''
     = Inl (PathError ''stat'' ''/home/operator/COMPONENT_VERSION'' EACCES)
   \<and> readFileRaw deniedOS ''/home/operator/COMPONENT_VERSION'' = Panics nilDereference
   \<and> ReadComponentVersionFile deniedOS = Panics nilDereference"
  by (simp add: deniedOS_def readFileRaw_def fileExists_def ReadComponentVersionFile_def)

section \<open>The pairs that are returned\<close>

lemma paired_nil [simp]: "paired (None, None)"
  by (simp add: paired_def)

lemma paired_failed [simp]: "paired (Some emptyResult, Some e)"
  by (simp add: paired_def)

lemma paired_finish [simp]: "paired (fst (finish a tr))"
  by (cases a) (simp add: finish_def split: option.splits)

lemma paired_ensure: "paired (fst (ensure op pk r m obj w))"
proof (cases w)
  case (Pair c tr)
  show ?thesis
    unfolding Pair ensure_run Let_def
    by (simp split: prod.splits sum.splits option.splits bool.splits)
qed

lemma paired_copyPullSecret: "paired (fst (copyPullSecret pk r m newNS w))"
  by (simp add: copyPullSecret_def client_Get_def client_Create_def Let_def
           split: prod.splits sum.splits option.splits)

text \<open>
  Every pair that the five ensure operations and \<^verbatim>\<open>copyPullSecret\<close> return has one of
  the two shapes, and \<^verbatim>\<open>apiReady\<close> has a third. This says nothing yet on which path
  returns which.
\<close>

lemma returned_pairs:
  "paired (fst (ensure op pk r m obj w))
   \<and> paired (fst (copyPullSecret pk r m newNS w))
   \<and> (paired (apiReady dz gv)
        \<or> apiReady dz gv = (Some \<lparr>Requeue = False, RequeueAfter = 10 * Second\<rparr>, None))"
proof -
  have "paired (apiReady dz gv)
        \<or> apiReady dz gv = (Some \<lparr>Requeue = False, RequeueAfter = 10 * Second\<rparr>, None)"
    by (simp add: apiReady_def paired_def split: sum.splits option.splits)
  then show ?thesis
    by (simp add: paired_ensure paired_copyPullSecret)
qed

text \<open>
  In the five ensure operations a failed create and a failed update come back as the empty
  result with the store's error, as a failed fetch does (\<open>ensure_fetch_failed\<close>).
\<close>

lemma ensure_create_failed:
  "Get (client r) (fetchKey op m obj) (fetchInto op) c = (Inl e, c1) \<Longrightarrow> IsNotFound e \<Longrightarrow>
   \<not> createSkipped op m \<Longrightarrow> Create (client r) obj c1 = (Some e2, c2) \<Longrightarrow>
   fst (ensure op pk r m obj (c, tr)) = (Some emptyResult, Some e2)"
  by (simp add: ensure_absent finish_def)

lemma ensure_update_failed:
  "Get (client r) (fetchKey op m obj) (fetchInto op) c = (Inr found, c1) \<Longrightarrow>
   strategy op pk r m obj found = Some (replacement, True) \<Longrightarrow>
   Update (client r) replacement c1 = (Some e2, c2) \<Longrightarrow>
   fst (ensure op pk r m obj (c, tr)) = (Some emptyResult, Some e2)"
  by (simp add: ensure_present finish_def)

text \<open>
  Claim C10 asks that every failure path returns the empty result together with an error.
  The path of \<^verbatim>\<open>copyPullSecret\<close> on which the fetch into the target namespace fails does
  not: the store answers that fetch with an error that is not not-found, here "forbidden",
  and the operation returns nil with nil.
\<close>

theorem copyPullSecret_failed_fetch_returns_nil:
  "\<not> IsNotFound forbidden
   \<and> Get (client scriptedReconciler) (NamespacedName ''cert-manager'' ''quay-secret'')
         certManagerCopy [GetReply (Inl forbidden)] = (Inl forbidden, [])
   \<and> copyPullSecret examplePackages scriptedReconciler hub ''cert-manager''
         ([GetReply (Inr quaySecret), GetReply (Inl forbidden)], []) =
       ((None, None),
        ([], [GetCall (NamespacedName ''open-cluster-management'' ''quay-secret'') emptySecret,
              GetCall (NamespacedName ''cert-manager'' ''quay-secret'') certManagerCopy]))"
  by (simp add: copyPullSecret_def client_Get_def examplePackages_def CoreToUnstructured_spec_def
        AddInstallerLabel_spec_def scriptedReconciler_def scripted_def hub_def certManagerCopy_def
        quaySecret_def emptySecret_def emptyObject_def emptyGVK_def forbidden_def)

end
